theory Spec2Isabelle
  imports Complex_Main
begin

section \<open>Python values, exceptions and observable events\<close>

text \<open>
  The exception classes the sources name, with the subclass relation of
  \<^verbatim>\<open>pymongo.errors\<close>: \<^verbatim>\<open>ServerSelectionTimeoutError\<close> is a
  \<^verbatim>\<open>ConnectionFailure\<close>, and \<^verbatim>\<open>ConnectionFailure\<close>,
  \<^verbatim>\<open>OperationFailure\<close> and \<^verbatim>\<open>CollectionInvalid\<close> are
  \<^verbatim>\<open>PyMongoError\<close>s. The remaining classes are Python built-ins outside that
  hierarchy. \<^verbatim>\<open>BulkWriteError\<close> carries a details document and is modelled
  with the bulk write outcome below.
\<close>

datatype exc_class =
    ConnectionFailure
  | ServerSelectionTimeoutError
  | OperationFailure
  | CollectionInvalid
  | PyMongoError
  | NotImplementedError
  | TypeError
  | ValueError
  | OtherException

datatype exn = Exn (exc_class: exc_class) (message: string)

fun is_ConnectionFailure :: "exn \<Rightarrow> bool" where
  "is_ConnectionFailure (Exn c m) = (c = ConnectionFailure \<or> c = ServerSelectionTimeoutError)"

fun is_OperationFailure :: "exn \<Rightarrow> bool" where
  "is_OperationFailure (Exn c m) = (c = OperationFailure)"

fun is_PyMongoError :: "exn \<Rightarrow> bool" where
  "is_PyMongoError (Exn c m) =
     (c = ConnectionFailure \<or> c = ServerSelectionTimeoutError \<or> c = OperationFailure
      \<or> c = CollectionInvalid \<or> c = PyMongoError)"




text \<open>
  What a run does besides returning: calls of the wrapped operation, connection
  attempts, reconnection requests (by role name) and \<^verbatim>\<open>time.sleep\<close> calls with
  their argument in seconds. Python computes the sleep arguments in binary floating
  point; the model computes them exactly, as rational numbers.
\<close>

datatype event =
    Call
  | Attempt nat
  | Reconnect string
  | Sleep rat

section \<open>connection\_manager.py: execute\_with\_retry\<close>

text \<open>
  Lines 286-291: the reconnection requested between two tries. Both
  \<^verbatim>\<open>connect_to_source\<close> and \<^verbatim>\<open>connect_to_destination\<close> catch every
  exception themselves, so the request never raises; any other role name
  reconnects nothing.
\<close>

definition reconnect :: "string \<Rightarrow> event list" where
  "reconnect client_type =
     (if client_type = ''source'' then [Reconnect ''source'']
      else if client_type = ''destination'' then [Reconnect ''destination'']
      else [])"

text \<open>
  Lines 276-297. The operation is a closure over mutable state \<open>'s\<close>: it maps
  the state to a raised exception (\<open>Inl\<close>) or a returned value (\<open>Inr\<close>) and the
  new state. The loop runs over \<^verbatim>\<open>range(max_retries)\<close>; when the range is
  exhausted without a \<^verbatim>\<open>return\<close> or \<^verbatim>\<open>raise\<close> (only possible for an empty
  range) the Python function returns \<^verbatim>\<open>None\<close>, here \<open>Inr None\<close>.
\<close>

fun execute_with_retry_loop ::
  "int \<Rightarrow> string \<Rightarrow> ('s \<Rightarrow> (exn + 'a) \<times> 's) \<Rightarrow> nat list \<Rightarrow> 's \<Rightarrow> event list
   \<Rightarrow> (exn + 'a option) \<times> 's \<times> event list" where
  "execute_with_retry_loop max_retries client_type operation [] s tr = (Inr None, s, tr)"
| "execute_with_retry_loop max_retries client_type operation (attempt # rest) s tr =
     (case operation s of
        (Inr v, s') \<Rightarrow> (Inr (Some v), s', tr @ [Call])
      | (Inl e, s') \<Rightarrow>
          if is_PyMongoError e then
            (if int attempt < max_retries - 1 then
               execute_with_retry_loop max_retries client_type operation rest s'
                 (tr @ [Call] @ reconnect client_type @ [Sleep (2 ^ attempt)])
             else (Inl e, s', tr @ [Call]))
          else (Inl e, s', tr @ [Call]))"

definition execute_with_retry ::
  "int \<Rightarrow> string \<Rightarrow> ('s \<Rightarrow> (exn + 'a) \<times> 's) \<Rightarrow> 's \<Rightarrow> (exn + 'a option) \<times> 's \<times> event list" where
  "execute_with_retry max_retries client_type operation s =
     execute_with_retry_loop max_retries client_type operation [0..<nat max_retries] s []"

text \<open>
  A scripted operation for concrete runs: the state is the list of outcomes still
  to come, and each call consumes one. A call beyond the script raises.
\<close>

fun scripted :: "(exn + 'a) list \<Rightarrow> (exn + 'a) \<times> (exn + 'a) list" where
  "scripted [] = (Inl (Exn OtherException ''script exhausted''), [])"
| "scripted (r # rs) = (r, rs)"

definition calls :: "event list \<Rightarrow> nat" where
  "calls tr = length (filter (\<lambda>ev. ev = Call) tr)"

section \<open>config.py: the settings the modelled code reads\<close>

record config =
  source_connection_string :: "string option"
  dest_connection_string :: "string option"
  use_managed_identity :: bool
  connection_retry_attempts :: int
  connection_retry_delay_ms :: int
  operation_retry_attempts :: int
  target_is_vcore :: bool
  ru_throughput_mode :: string
  ru_manual_throughput :: int
  ru_autoscale_max_throughput :: int
  ru_default_partition_key :: string

text \<open>Lines 16-42 of config.py: the defaults set by the constructor.\<close>

definition default_config :: config where
  "default_config =
     \<lparr> source_connection_string = None, dest_connection_string = None,
       use_managed_identity = False,
       connection_retry_attempts = 5, connection_retry_delay_ms = 2000,
       operation_retry_attempts = 3,
       target_is_vcore = True, ru_throughput_mode = ''manual'',
       ru_manual_throughput = 400, ru_autoscale_max_throughput = 4000,
       ru_default_partition_key = ''_id'' \<rparr>"

section \<open>connection\_manager.py: creating and reusing connections\<close>

text \<open>
  One pass through the \<^verbatim>\<open>try\<close> body of lines 215-234: constructing the client
  and pinging it either yields the verified client or raises.
\<close>

datatype 'c attempt_outcome = Connected 'c | Failed exn











text \<open>Python truthiness of a connection string: \<^verbatim>\<open>None\<close> and the empty string are false.\<close>

definition truthy :: "string option \<Rightarrow> bool" where
  "truthy s = (case s of None \<Rightarrow> False | Some x \<Rightarrow> x \<noteq> [])"







section \<open>migration\_service.py: listing databases\<close>

definition system_dbs :: "string list" where
  "system_dbs = [''admin'', ''local'', ''config'']"

text \<open>
  Lines 62-66. \<open>list_database_names\<close> is the driver call on the source
  client: it raises or returns the names, and may change the state of the world.
\<close>

definition list_databases_operation ::
  "('s \<Rightarrow> (exn + string list) \<times> 's) \<Rightarrow> 's \<Rightarrow> (exn + string list) \<times> 's" where
  "list_databases_operation list_database_names s =
     (case list_database_names s of
        (Inl e, s') \<Rightarrow> (Inl e, s')
      | (Inr names, s') \<Rightarrow> (Inr (filter (\<lambda>db. db \<notin> set system_dbs) names), s'))"

text \<open>
  Lines 68-75. The connection manager, when the service has one, is represented by
  its \<^verbatim>\<open>operation_retry_attempts\<close>. Only a \<^verbatim>\<open>PyMongoError\<close> is caught; the
  returned value is a list, or \<open>None\<close> for Python's \<^verbatim>\<open>None\<close>.
\<close>

definition list_databases ::
  "int option \<Rightarrow> ('s \<Rightarrow> (exn + string list) \<times> 's) \<Rightarrow> 's
   \<Rightarrow> (exn + string list option) \<times> 's \<times> event list" where
  "list_databases connection_manager list_database_names s =
     (let r = (case connection_manager of
                 Some max_retries \<Rightarrow>
                   execute_with_retry max_retries ''source''
                     (list_databases_operation list_database_names) s
               | None \<Rightarrow>
                   (case list_databases_operation list_database_names s of
                      (Inl e, s') \<Rightarrow> (Inl e, s', [Call])
                    | (Inr v, s') \<Rightarrow> (Inr (Some v), s', [Call])))
      in case r of
           (Inl e, s', tr) \<Rightarrow> if is_PyMongoError e then (Inr (Some []), s', tr) else r
         | (Inr v, s', tr) \<Rightarrow> r)"

section \<open>migration\_service.py: the write path\<close>

text \<open>
  A record is a Python dict: an association list with pairwise distinct field
  names, in insertion order. The identity field is \<^verbatim>\<open>_id\<close>.
\<close>

datatype pyvalue = VInt int | VStr string | VObjectId nat

type_synonym document = "(string \<times> pyvalue) list"

text \<open>The driver's \<^verbatim>\<open>ReplaceOne(filter, replacement, upsert)\<close> request.\<close>

datatype operation = ReplaceOne (filter_doc: document) (replacement: document) (upsert: bool)

text \<open>Lines 330-342: one request per record of the batch.\<close>

definition operations_of :: "document list \<Rightarrow> operation list" where
  "operations_of batch =
     map (\<lambda>document.
            case map_of document ''_id'' of
              Some i \<Rightarrow> ReplaceOne [(''_id'', i)] document True
            | None \<Rightarrow> ReplaceOne [] document True)
         batch"

text \<open>
  What \<^verbatim>\<open>bulk_write\<close> hands back. A successful call returns the result object
  with its three counters. A \<^verbatim>\<open>BulkWriteError\<close> carries the dict
  \<^verbatim>\<open>e.details\<close>, of which the model keeps: the value under the key
  \<^verbatim>\<open>writeResult\<close> when that key is present (a dict of counters), the list under
  \<^verbatim>\<open>writeErrors\<close> when present, and the integer entries at top level. Any other
  exception is raised as it is.
\<close>

record bulk_result =
  inserted_count :: int
  upserted_count :: int
  modified_count :: int

record write_error =
  index :: nat
  errmsg :: string

record bulk_write_details =
  writeResult :: "(string \<times> int) list option"
  writeErrors :: "write_error list option"
  top_level :: "(string \<times> int) list"

datatype bulk_outcome =
    BulkResult bulk_result
  | BulkWriteError bulk_write_details
  | BulkRaise exn

text \<open>Python's \<^verbatim>\<open>d.get(key, 0)\<close> on a dict of counters.\<close>

definition get0 :: "(string \<times> int) list \<Rightarrow> string \<Rightarrow> int" where
  "get0 d key = (case map_of d key of Some v \<Rightarrow> v | None \<Rightarrow> 0)"

text \<open>
  The statistics dict of one batch (line 323); \<^verbatim>\<open>raw_inserted\<close> is a key that
  only some paths set.
\<close>

record batch_stats =
  inserted :: int
  failed :: int
  upserted :: int
  modified :: int
  raw_inserted :: "int option"

definition stats0 :: batch_stats where
  "stats0 = \<lparr> inserted = 0, failed = 0, upserted = 0, modified = 0, raw_inserted = None \<rparr>"

text \<open>
  Lines 322-385. The destination is a state \<open>'d\<close> that \<^verbatim>\<open>bulk_write\<close>
  transforms. An exception that is not a \<^verbatim>\<open>PyMongoError\<close> leaves the closure.
\<close>

definition process_batch_operation ::
  "('d \<Rightarrow> operation list \<Rightarrow> bulk_outcome \<times> 'd) \<Rightarrow> document list \<Rightarrow> 'd
   \<Rightarrow> (exn + batch_stats) \<times> 'd" where
  "process_batch_operation bulk_write batch dest =
     (if batch = [] then (Inr stats0, dest)
      else
        case bulk_write dest (operations_of batch) of
          (BulkResult result, dest') \<Rightarrow>
            (Inr \<lparr> inserted = inserted_count result + upserted_count result
                              + modified_count result,
                   failed = 0,
                   upserted = upserted_count result,
                   modified = modified_count result,
                   raw_inserted = Some (inserted_count result) \<rparr>, dest')
        | (BulkWriteError details, dest') \<Rightarrow>
            (let result = (case writeResult details of Some r \<Rightarrow> r | None \<Rightarrow> []);
                 write_errors = (case writeErrors details of Some l \<Rightarrow> l | None \<Rightarrow> []);
                 inserted_count = get0 result ''nInserted'';
                 upserted_count = get0 result ''nUpserted'';
                 modified_count = get0 result ''nModified''
             in (Inr \<lparr> inserted = inserted_count + upserted_count + modified_count,
                        failed = int (length write_errors),
                        upserted = upserted_count,
                        modified = modified_count,
                        raw_inserted = Some inserted_count \<rparr>, dest'))
        | (BulkRaise e, dest') \<Rightarrow>
            if is_PyMongoError e
            then (Inr (stats0\<lparr>failed := int (length batch)\<rparr>), dest')
            else (Inl e, dest'))"

text \<open>
  Lines 387-395. The connection manager, when the service has one, is represented
  by its \<^verbatim>\<open>operation_retry_attempts\<close>. The result is the returned dict, or
  \<open>None\<close> when \<^verbatim>\<open>execute_with_retry\<close> returns Python's \<^verbatim>\<open>None\<close>.
\<close>

definition process_batch ::
  "int option \<Rightarrow> ('d \<Rightarrow> operation list \<Rightarrow> bulk_outcome \<times> 'd) \<Rightarrow> document list \<Rightarrow> 'd
   \<Rightarrow> batch_stats option \<times> 'd" where
  "process_batch connection_manager bulk_write batch dest =
     (let r = (case connection_manager of
                 Some max_retries \<Rightarrow>
                   (case execute_with_retry max_retries ''destination''
                           (process_batch_operation bulk_write batch) dest of
                      (res, dest', tr) \<Rightarrow> (res, dest'))
               | None \<Rightarrow>
                   (case process_batch_operation bulk_write batch dest of
                      (Inl e, dest') \<Rightarrow> (Inl e, dest')
                    | (Inr v, dest') \<Rightarrow> (Inr (Some v), dest')))
      in case r of
           (Inl e, dest') \<Rightarrow>
             (Some \<lparr> inserted = 0, failed = int (length batch), upserted = 0, modified = 0,
                     raw_inserted = None \<rparr>, dest')
         | (Inr v, dest') \<Rightarrow> (v, dest'))"

section \<open>migration\_service.py: streaming one collection\<close>

text \<open>The statistics dict of lines 249-257; the total may be Python's \<^verbatim>\<open>None\<close>.\<close>

record migration_stats =
  success :: bool
  total_documents :: "int option"
  migrated_documents :: int
  failed_documents :: int
  inserted_documents :: int
  upserted_documents :: int
  modified_documents :: int

text \<open>
  The four dicts \<^verbatim>\<open>migrate_collection\<close> can return: the failure to create the
  destination collection (lines 214-217), the empty source (236-241), the
  statistics of a run (299) and the failure dict of the \<^verbatim>\<open>except\<close> clause
  (304-310).
\<close>

datatype report =
    EnsureFailed string
  | EmptySource
  | Finished migration_stats
  | Aborted string

fun report_success :: "report \<Rightarrow> bool" where
  "report_success (EnsureFailed err) = False"
| "report_success EmptySource = True"
| "report_success (Finished stats) = success stats"
| "report_success (Aborted err) = False"

text \<open>
  The cursor of line 263 as the sequence of what iterating it does: yield a
  record, or raise.
\<close>

datatype cursor_item = Doc document | CursorRaise exn

text \<open>Lines 271-275 and 282-286.\<close>

definition add_batch_stats :: "migration_stats \<Rightarrow> batch_stats \<Rightarrow> migration_stats" where
  "add_batch_stats stats bs =
     stats\<lparr> migrated_documents := migrated_documents stats + inserted bs,
            failed_documents := failed_documents stats + failed bs,
            inserted_documents := inserted_documents stats
               + (case raw_inserted bs of Some n \<Rightarrow> n | None \<Rightarrow> 0),
            upserted_documents := upserted_documents stats + upserted bs,
            modified_documents := modified_documents stats + modified bs \<rparr>"

text \<open>
  The variables of the loop of lines 264-287, with two logs added: the batches
  handed to \<^verbatim>\<open>_process_batch\<close>, and the arguments of
  \<^verbatim>\<open>progress_bar.update\<close>.
\<close>

record 'd loop_state =
  batch :: "document list"
  stats :: migration_stats
  dest :: 'd
  written :: "document list list"
  progress :: "nat list"

text \<open>
  Lines 270-276 and 281-287: hand the current batch to the write path, add its
  statistics, advance the progress bar. Subscripting Python's \<^verbatim>\<open>None\<close>
  raises \<^verbatim>\<open>TypeError\<close>.
\<close>

definition flush ::
  "int option \<Rightarrow> ('d \<Rightarrow> operation list \<Rightarrow> bulk_outcome \<times> 'd) \<Rightarrow> 'd loop_state
   \<Rightarrow> exn option \<times> 'd loop_state" where
  "flush connection_manager bulk_write st =
     (case process_batch connection_manager bulk_write (batch st) (dest st) of
        (None, dest') \<Rightarrow>
          (Some (Exn TypeError ''NoneType object is not subscriptable''),
           st\<lparr>dest := dest', written := written st @ [batch st]\<rparr>)
      | (Some batch_stats, dest') \<Rightarrow>
          (None,
           st\<lparr>stats := add_batch_stats (stats st) batch_stats,
              dest := dest',
              written := written st @ [batch st],
              progress := progress st @ [length (batch st)]\<rparr>))"

text \<open>Lines 266-277: the loop over the cursor.\<close>

fun stream ::
  "int option \<Rightarrow> ('d \<Rightarrow> operation list \<Rightarrow> bulk_outcome \<times> 'd) \<Rightarrow> int \<Rightarrow> cursor_item list
   \<Rightarrow> 'd loop_state \<Rightarrow> exn option \<times> 'd loop_state" where
  "stream connection_manager bulk_write batch_size [] st = (None, st)"
| "stream connection_manager bulk_write batch_size (CursorRaise e # rest) st = (Some e, st)"
| "stream connection_manager bulk_write batch_size (Doc document # rest) st =
     (let st1 = st\<lparr>batch := batch st @ [document]\<rparr> in
      if batch_size \<le> int (length (batch st1)) then
        (case flush connection_manager bulk_write st1 of
           (Some e, st2) \<Rightarrow> (Some e, st2)
         | (None, st2) \<Rightarrow>
             stream connection_manager bulk_write batch_size rest (st2\<lparr>batch := []\<rparr>))
      else stream connection_manager bulk_write batch_size rest st1)"

text \<open>Lines 262-287: the loop, then the remaining records if there are any.\<close>

definition stream_all ::
  "int option \<Rightarrow> ('d \<Rightarrow> operation list \<Rightarrow> bulk_outcome \<times> 'd) \<Rightarrow> int \<Rightarrow> cursor_item list
   \<Rightarrow> 'd loop_state \<Rightarrow> exn option \<times> 'd loop_state" where
  "stream_all connection_manager bulk_write batch_size cur st0 =
     (case stream connection_manager bulk_write batch_size cur st0 of
        (Some e, st) \<Rightarrow> (Some e, st)
      | (None, st) \<Rightarrow>
          if batch st \<noteq> [] then flush connection_manager bulk_write st else (None, st))"

text \<open>
  Whether \<^verbatim>\<open>execute_with_retry\<close> runs the operation at all: there is no
  connection manager, or its \<^verbatim>\<open>operation_retry_attempts\<close> is at least one.
\<close>

definition can_try :: "int option \<Rightarrow> bool" where
  "can_try connection_manager =
     (case connection_manager of None \<Rightarrow> True | Some max_retries \<Rightarrow> 0 < max_retries)"

text \<open>
  What the steps before streaming meet in the world (lines 193-246): the result
  of \<^verbatim>\<open>ensure_collection_exists\<close> on the provisioned path (the partition-key
  recommendation and the throughput query around it catch every exception); on
  the other path the listing of the destination's collections and the exception
  \<^verbatim>\<open>create_collection\<close> raises, if any; what \<^verbatim>\<open>count_documents\<close> of
  lines 100-122 does (raise an exception that is not a \<^verbatim>\<open>PyMongoError\<close>,
  return \<^verbatim>\<open>None\<close>, or return a number); what counting the destination does;
  and the cursor over the source.
\<close>

record migrate_env =
  ru_ensure :: bool
  vcore_listing :: "exn + string list"
  vcore_create :: "exn option"
  source_count :: "exn + int option"
  dest_count :: "exn + int"
  cursor :: "cursor_item list"

text \<open>Lines 199-227: \<open>Inl\<close> an exception, \<open>Inr\<close> whether the collection is there.\<close>

definition ensure_destination :: "bool \<Rightarrow> string \<Rightarrow> migrate_env \<Rightarrow> exn + bool" where
  "ensure_destination is_vcore collection_name env =
     (if \<not> is_vcore then Inr (ru_ensure env)
      else
        case vcore_listing env of
          Inl e \<Rightarrow> Inl e
        | Inr names \<Rightarrow>
            if collection_name \<notin> set names then
              (case vcore_create env of Some e \<Rightarrow> Inl e | None \<Rightarrow> Inr True)
            else Inr True)"

definition initial_state :: "int option \<Rightarrow> 'd \<Rightarrow> 'd loop_state" where
  "initial_state n dest0 =
     \<lparr> batch = [],
       stats = \<lparr> success = True, total_documents = n, migrated_documents = 0,
                 failed_documents = 0, inserted_documents = 0, upserted_documents = 0,
                 modified_documents = 0 \<rparr>,
       dest = dest0, written = [], progress = [] \<rparr>"

text \<open>
  Lines 192-310. The result is the returned dict together with the final loop
  state (destination and logs).
\<close>

definition migrate_collection ::
  "bool \<Rightarrow> int option \<Rightarrow> int \<Rightarrow> ('d \<Rightarrow> operation list \<Rightarrow> bulk_outcome \<times> 'd) \<Rightarrow> string
   \<Rightarrow> migrate_env \<Rightarrow> 'd \<Rightarrow> report \<times> 'd loop_state" where
  "migrate_collection is_vcore connection_manager batch_size bulk_write collection_name env dest0 =
     (case ensure_destination is_vcore collection_name env of
        Inl e \<Rightarrow> (Aborted (message e), initial_state None dest0)
      | Inr False \<Rightarrow>
          (EnsureFailed ''Failed to create destination collection with RU settings'',
           initial_state None dest0)
      | Inr True \<Rightarrow>
          (case source_count env of
             Inl e \<Rightarrow> (Aborted (message e), initial_state None dest0)
           | Inr total_docs \<Rightarrow>
               if total_docs = Some 0 then (EmptySource, initial_state total_docs dest0)
               else
                 (case dest_count env of
                    Inl e \<Rightarrow> (Aborted (message e), initial_state total_docs dest0)
                  | Inr n \<Rightarrow>
                      (case stream_all connection_manager bulk_write batch_size (cursor env)
                              (initial_state total_docs dest0) of
                         (Some e, st) \<Rightarrow> (Aborted (message e), st)
                       | (None, st) \<Rightarrow> (Finished (stats st), st)))))"

section \<open>A destination collection that follows the documented ReplaceOne semantics\<close>

text \<open>
  The destination server is outside the repository. To trace what a batch does to
  the records already there, this is the behaviour the database documents for
  \<^verbatim>\<open>replaceOne\<close>: the filter selects the first stored record whose fields equal
  the filter's (an empty filter selects the first record of the collection); a
  selected record is replaced and keeps its \<^verbatim>\<open>_id\<close> (a replacement naming
  another \<^verbatim>\<open>_id\<close> is a write error); with no selected record and
  \<^verbatim>\<open>upsert\<close> set, the replacement is inserted, its \<^verbatim>\<open>_id\<close> taken from the
  replacement, else from the filter, else generated.
\<close>

record mongo_collection =
  stored :: "document list"
  next_oid :: nat

definition matches :: "document \<Rightarrow> document \<Rightarrow> bool" where
  "matches flt d = list_all (\<lambda>(k, v). map_of d k = Some v) flt"

fun find_first :: "('a \<Rightarrow> bool) \<Rightarrow> 'a list \<Rightarrow> nat option" where
  "find_first P [] = None"
| "find_first P (x # xs) =
     (if P x then Some 0 else (case find_first P xs of None \<Rightarrow> None | Some i \<Rightarrow> Some (Suc i)))"

datatype write_outcome = Modified | Unchanged | Upserted | NoMatch | WriteFailed string

fun replace_one :: "mongo_collection \<Rightarrow> operation \<Rightarrow> write_outcome \<times> mongo_collection" where
  "replace_one c (ReplaceOne flt r ups) =
     (case find_first (matches flt) (stored c) of
        Some i \<Rightarrow>
          (let old = stored c ! i;
               new = (case (map_of r ''_id'', map_of old ''_id'') of
                        (Some rid, Some oid) \<Rightarrow> if rid = oid then Some r else None
                      | (None, Some oid) \<Rightarrow> Some ((''_id'', oid) # r)
                      | (rid, None) \<Rightarrow> Some r)
           in case new of
                None \<Rightarrow> (WriteFailed ''the (immutable) field _id was found to have been altered'', c)
              | Some d \<Rightarrow>
                  if d = old then (Unchanged, c)
                  else (Modified, c\<lparr>stored := (stored c)[i := d]\<rparr>))
      | None \<Rightarrow>
          if ups then
            (case map_of r ''_id'' of
               Some rid \<Rightarrow> (Upserted, c\<lparr>stored := stored c @ [r]\<rparr>)
             | None \<Rightarrow>
                 (case map_of flt ''_id'' of
                    Some fid \<Rightarrow> (Upserted, c\<lparr>stored := stored c @ [(''_id'', fid) # r]\<rparr>)
                  | None \<Rightarrow>
                      (Upserted,
                       c\<lparr>stored := stored c @ [(''_id'', VObjectId (next_oid c)) # r],
                         next_oid := Suc (next_oid c)\<rparr>)))
          else (NoMatch, c))"

text \<open>
  An unordered bulk write applies every request and collects the failures. The
  counters of a failed bulk write are laid out as the driver lays them out in
  \<^verbatim>\<open>BulkWriteError.details\<close>: at top level, next to \<^verbatim>\<open>writeErrors\<close>.
\<close>

fun apply_operations ::
  "mongo_collection \<Rightarrow> operation list \<Rightarrow> nat \<Rightarrow> bulk_result \<Rightarrow> write_error list
   \<Rightarrow> bulk_result \<times> write_error list \<times> mongo_collection" where
  "apply_operations c [] i res errs = (res, errs, c)"
| "apply_operations c (opn # ops) i res errs =
     (case replace_one c opn of
        (Modified, c') \<Rightarrow>
          apply_operations c' ops (Suc i) (res\<lparr>modified_count := modified_count res + 1\<rparr>) errs
      | (Unchanged, c') \<Rightarrow> apply_operations c' ops (Suc i) res errs
      | (Upserted, c') \<Rightarrow>
          apply_operations c' ops (Suc i) (res\<lparr>upserted_count := upserted_count res + 1\<rparr>) errs
      | (NoMatch, c') \<Rightarrow> apply_operations c' ops (Suc i) res errs
      | (WriteFailed msg, c') \<Rightarrow>
          apply_operations c' ops (Suc i) res (errs @ [\<lparr>index = i, errmsg = msg\<rparr>]))"

definition mongo_bulk_write :: "mongo_collection \<Rightarrow> operation list \<Rightarrow> bulk_outcome \<times> mongo_collection" where
  "mongo_bulk_write c ops =
     (case apply_operations c ops 0
             \<lparr>inserted_count = 0, upserted_count = 0, modified_count = 0\<rparr> [] of
        (res, errs, c') \<Rightarrow>
          if errs = [] then (BulkResult res, c')
          else
            (BulkWriteError
               \<lparr> writeResult = None, writeErrors = Some errs,
                 top_level = [(''nInserted'', inserted_count res),
                              (''nUpserted'', upserted_count res),
                              (''nModified'', modified_count res)] \<rparr>, c'))"



text \<open>Ten records with identities.\<close>

definition ten_docs :: "document list" where
  "ten_docs = map (\<lambda>i. [(''_id'', VInt (int i))]) [0..<10]"

text \<open>
  The details of a bulk write of ten requests of which three failed, with the
  keys the driver sets: the counters at top level, no \<^verbatim>\<open>writeResult\<close> key.
\<close>

definition driver_partial_failure :: bulk_write_details where
  "driver_partial_failure =
     \<lparr> writeResult = None,
       writeErrors = Some [\<lparr>index = 2, errmsg = ''Request rate is large''\<rparr>,
                           \<lparr>index = 5, errmsg = ''Request rate is large''\<rparr>,
                           \<lparr>index = 9, errmsg = ''Request rate is large''\<rparr>],
       top_level = [(''nInserted'', 0), (''nUpserted'', 7), (''nModified'', 0),
                    (''nMatched'', 0), (''nRemoved'', 0)] \<rparr>"

text \<open>A destination that already holds one record.\<close>

definition one_record :: mongo_collection where
  "one_record = \<lparr> stored = [[(''_id'', VInt 1), (''name'', VStr ''old'')]], next_oid = 0 \<rparr>"

text \<open>A destination that refuses every bulk write with a driver error.\<close>

definition failing_bulk_write :: "unit \<Rightarrow> operation list \<Rightarrow> bulk_outcome \<times> unit" where
  "failing_bulk_write d ops = (BulkRaise (Exn OperationFailure ''write refused''), d)"

text \<open>A source collection of three records whose destination collection exists.\<close>

definition sample_env :: migrate_env where
  "sample_env =
     \<lparr> ru_ensure = True, vcore_listing = Inr [''orders''], vcore_create = None,
       source_count = Inr (Some 3), dest_count = Inr 0,
       cursor = map Doc [[(''_id'', VInt 1)], [(''_id'', VInt 2)], [(''_id'', VInt 3)]] \<rparr>"

section \<open>cosmos\_ru\_manager.py: creating destination collections\<close>

text \<open>The throughput part of the creation command (lines 97-104).\<close>

datatype throughput = OfferThroughput int | AutoScaleMaxThroughput int

record create_command =
  collection :: string
  shardKey :: string
  throughput_setting :: throughput

text \<open>
  The destination database as the manager meets it: listing the collection
  names, the standard creation call, and the custom \<^verbatim>\<open>CreateCollection\<close>
  command, whose reply is reduced to whether its \<^verbatim>\<open>ok\<close> field equals 1. Each
  call raises (\<open>Inl\<close>) or succeeds; a creating call that succeeds yields the new
  state of the database.
\<close>

record 'db server =
  list_collection_names :: "'db \<Rightarrow> exn + string list"
  create_collection :: "'db \<Rightarrow> string \<Rightarrow> exn + 'db"
  run_command :: "'db \<Rightarrow> create_command \<Rightarrow> exn + (bool \<times> 'db)"

text \<open>Python's \<^verbatim>\<open>sub in s\<close> on strings.\<close>

fun starts_with :: "'a list \<Rightarrow> 'a list \<Rightarrow> bool" where
  "starts_with xs [] = True"
| "starts_with [] (y # ys) = False"
| "starts_with (x # xs) (y # ys) = (x = y \<and> starts_with xs ys)"

fun contains :: "'a list \<Rightarrow> 'a list \<Rightarrow> bool" where
  "contains [] sub = (sub = [])"
| "contains (x # xs) sub = (starts_with (x # xs) sub \<or> contains xs sub)"

text \<open>Python's \<^verbatim>\<open>str.lower\<close> on ASCII letters.\<close>

definition lower :: "string \<Rightarrow> string" where
  "lower s =
     map (\<lambda>c. let n = (of_char c :: nat) in if 65 \<le> n \<and> n \<le> 90 then char_of (n + 32) else c) s"

text \<open>Lines 82-128.\<close>

definition create_collection_with_throughput ::
  "config \<Rightarrow> 'db server \<Rightarrow> 'db \<Rightarrow> string \<Rightarrow> string option \<Rightarrow> string \<Rightarrow> int \<Rightarrow> int
   \<Rightarrow> bool \<times> 'db" where
  "create_collection_with_throughput cfg srv db collection_name partition_key throughput_mode
     manual_ru autoscale_max_ru =
     (let pk = (case partition_key of
                  None \<Rightarrow> ru_default_partition_key cfg
                | Some k \<Rightarrow> if k = [] then ru_default_partition_key cfg else k);
          create_command =
            \<lparr> collection = collection_name, shardKey = pk,
              throughput_setting =
                (if lower throughput_mode = ''autoscale''
                 then AutoScaleMaxThroughput autoscale_max_ru
                 else OfferThroughput manual_ru) \<rparr>
      in case run_command srv db create_command of
           Inr (ok, db') \<Rightarrow> (ok, db')
         | Inl e \<Rightarrow>
             if is_OperationFailure e then
               (if contains (message e) ''NamespaceExists'' then (True, db) else (False, db))
             else (False, db))"

text \<open>Lines 219-246.\<close>

definition ensure_collection_exists ::
  "config \<Rightarrow> 'db server \<Rightarrow> 'db \<Rightarrow> string \<Rightarrow> string option \<Rightarrow> bool \<times> 'db" where
  "ensure_collection_exists cfg srv db collection_name partition_key =
     (case list_collection_names srv db of
        Inl e \<Rightarrow> (False, db)
      | Inr names \<Rightarrow>
          if collection_name \<in> set names then (True, db)
          else if target_is_vcore cfg then
            (case create_collection srv db collection_name of
               Inl e \<Rightarrow> (False, db)
             | Inr db' \<Rightarrow> (True, db'))
          else
            create_collection_with_throughput cfg srv db collection_name
              (Some (if truthy partition_key then (case partition_key of Some k \<Rightarrow> k | None \<Rightarrow> [])
                     else ru_default_partition_key cfg))
              (ru_throughput_mode cfg) (ru_manual_throughput cfg)
              (ru_autoscale_max_throughput cfg))"

text \<open>
  A database for concrete runs. Its state is a pair: the names its listing shows,
  and the names that exist; a collection that another client has just created
  exists without being listed yet. Creating what exists is refused.
\<close>

definition racing_server :: "(string list \<times> string list) server" where
  "racing_server =
     \<lparr> list_collection_names = (\<lambda>db. Inr (fst db)),
       create_collection = (\<lambda>db name.
          if name \<in> set (snd db)
          then Inl (Exn CollectionInvalid (''collection '' @ name @ '' already exists''))
          else Inr (fst db @ [name], snd db @ [name])),
       run_command = (\<lambda>db cmd.
          if collection cmd \<in> set (snd db)
          then Inl (Exn OperationFailure ''Collection already exists, codeName: NamespaceExists'')
          else Inr (True, (fst db @ [collection cmd], snd db @ [collection cmd]))) \<rparr>"

section \<open>cosmos\_ru\_manager.py: recommending a partition key\<close>



















section \<open>Properties of the retrying executor and of listing\<close>

lemma loop_returns_from_operation:
  "execute_with_retry_loop mr ct operation xs s tr = (Inr (Some v), s', tr')
   \<Longrightarrow> \<exists>s0. operation s0 = (Inr v, s')"
proof (induction xs arbitrary: s tr)
  case Nil
  then show ?case by simp
next
  case (Cons a xs)
  then show ?case
    by (auto split: prod.splits sum.splits if_splits)
qed

lemma loop_raises_from_operation:
  "execute_with_retry_loop mr ct operation xs s tr = (Inl e, s', tr')
   \<Longrightarrow> \<exists>s0. operation s0 = (Inl e, s')"
proof (induction xs arbitrary: s tr)
  case Nil
  then show ?case by simp
next
  case (Cons a xs)
  then show ?case
    by (auto split: prod.splits sum.splits if_splits)
qed

lemma loop_calls_bound:
  "execute_with_retry_loop mr ct operation xs s tr = (r, s', tr')
   \<Longrightarrow> calls tr' \<le> calls tr + length xs"
proof (induction xs arbitrary: s tr)
  case Nil
  then show ?case by simp
next
  case (Cons a xs)
  show ?case
  proof (cases "operation s")
    case (Pair res s1)
    show ?thesis
    proof (cases res)
      case (Inr v)
      with Pair Cons.prems show ?thesis by (auto simp: calls_def)
    next
      case (Inl e)
      show ?thesis
      proof (cases "is_PyMongoError e \<and> int a < mr - 1")
        case True
        with Pair Inl Cons.prems
        have "execute_with_retry_loop mr ct operation xs s1
                (tr @ [Call] @ reconnect ct @ [Sleep (2 ^ a)]) = (r, s', tr')"
          by simp
        from Cons.IH [OF this]
        show ?thesis by (simp add: calls_def reconnect_def)
      next
        case False
        with Pair Inl Cons.prems show ?thesis by (auto simp: calls_def split: if_splits)
      qed
    qed
  qed
qed

lemma loop_all_fail:
  assumes fail: "\<And>s. \<exists>e s'. operation s = (Inl e, s') \<and> is_PyMongoError e"
  shows "i < n \<Longrightarrow> n = nat mr \<Longrightarrow>
         \<exists>e s' tr'. execute_with_retry_loop mr ct operation [i..<n] s tr = (Inl e, s', tr')
                    \<and> is_PyMongoError e"
proof (induction "n - i" arbitrary: i s tr)
  case 0
  then show ?case by simp
next
  case (Suc k)
  from fail [of s] obtain e s1 where op: "operation s = (Inl e, s1)" and pm: "is_PyMongoError e"
    by blast
  have upt: "[i..<n] = i # [Suc i..<n]" using Suc.prems by (simp add: upt_conv_Cons)
  show ?case
  proof (cases "int i < mr - 1")
    case True
    then have lt: "Suc i < n" using Suc.prems by linarith
    have k: "k = n - Suc i" using Suc.hyps by linarith
    from Suc.hyps(1) [OF k lt Suc.prems(2)]
    show ?thesis using op pm True upt by simp
  next
    case False
    then show ?thesis using op pm upt by simp
  qed
qed

lemma list_op_returns_filtered:
  "list_databases_operation f s0 = (Inr v, s1) \<Longrightarrow> set v \<inter> set system_dbs = {}"
  by (auto simp: list_databases_operation_def split: prod.splits sum.splits)

lemma list_op_fails:
  "f s = (Inl e, s') \<Longrightarrow> list_databases_operation f s = (Inl e, s')"
  by (simp add: list_databases_operation_def)

text \<open>
  The policy of lines 277-297: an exception that is not a \<^verbatim>\<open>PyMongoError\<close>
  propagates at once, at the first try and at any later one; a
  \<^verbatim>\<open>PyMongoError\<close> raised at try \<open>attempt\<close> while tries remain is followed by
  the reconnection of the role and a sleep of \<open>2 ^ attempt\<close> seconds; the
  operation is called at most \<^verbatim>\<open>operation_retry_attempts\<close> times.
\<close>

lemma execute_with_retry_policy:
  "(0 < mr \<and> operation s = (Inl e, s') \<and> \<not> is_PyMongoError e
      \<longrightarrow> execute_with_retry mr ct operation s = (Inl e, s', [Call]))
   \<and> (operation2 s2 = (Inl e2, s2') \<and> \<not> is_PyMongoError e2
      \<longrightarrow> execute_with_retry_loop mr2 ct2 operation2 (attempt # rest) s2 tr
          = (Inl e2, s2', tr @ [Call]))
   \<and> (operation3 s3 = (Inl e3, s3') \<and> is_PyMongoError e3 \<and> int attempt3 < mr3 - 1
      \<longrightarrow> execute_with_retry_loop mr3 ct3 operation3 (attempt3 # rest3) s3 tr3
          = execute_with_retry_loop mr3 ct3 operation3 rest3 s3'
              (tr3 @ [Call] @ reconnect ct3 @ [Sleep (2 ^ attempt3)]))
   \<and> calls (snd (snd (execute_with_retry mr4 ct4 operation4 s4))) \<le> nat mr4"
proof (intro conjI impI)
  assume a: "0 < mr \<and> operation s = (Inl e, s') \<and> \<not> is_PyMongoError e"
  then have "[0..<nat mr] = 0 # [1..<nat mr]" by (simp add: upt_conv_Cons)
  with a show "execute_with_retry mr ct operation s = (Inl e, s', [Call])"
    by (simp add: execute_with_retry_def)
next
  assume "operation2 s2 = (Inl e2, s2') \<and> \<not> is_PyMongoError e2"
  then show "execute_with_retry_loop mr2 ct2 operation2 (attempt # rest) s2 tr
          = (Inl e2, s2', tr @ [Call])" by simp
next
  assume "operation3 s3 = (Inl e3, s3') \<and> is_PyMongoError e3 \<and> int attempt3 < mr3 - 1"
  then show "execute_with_retry_loop mr3 ct3 operation3 (attempt3 # rest3) s3 tr3
          = execute_with_retry_loop mr3 ct3 operation3 rest3 s3'
              (tr3 @ [Call] @ reconnect ct3 @ [Sleep (2 ^ attempt3)])" by simp
next
  obtain r s' tr' where run: "execute_with_retry mr4 ct4 operation4 s4 = (r, s', tr')"
    by (cases "execute_with_retry mr4 ct4 operation4 s4") auto
  then have "calls tr' \<le> calls [] + length [0..<nat mr4]"
    unfolding execute_with_retry_def by (rule loop_calls_bound)
  with run show "calls (snd (snd (execute_with_retry mr4 ct4 operation4 s4))) \<le> nat mr4"
    by (simp add: calls_def)
qed

text \<open>
  C2, at an operation that fails with a data error. Three tries are allowed; the
  first call raises \<^verbatim>\<open>OperationFailure\<close>, a data error that is not a
  \<^verbatim>\<open>ConnectionFailure\<close>; the executor reconnects the destination, sleeps one
  second, calls the operation again and returns its value.
\<close>

theorem execute_with_retry_retries_operation_failure:
  "\<not> is_ConnectionFailure (Exn OperationFailure ''duplicate key'')
   \<and> execute_with_retry 3 ''destination'' scripted
        [Inl (Exn OperationFailure ''duplicate key''), Inr (7::nat)]
     = (Inr (Some 7), [], [Call, Reconnect ''destination'', Sleep 1, Call])"
  by (simp add: execute_with_retry_def reconnect_def upt_conv_Cons)

text \<open>
  C10. Whatever \<^verbatim>\<open>list_databases\<close> returns as a list contains none of
  \<^verbatim>\<open>admin\<close>, \<^verbatim>\<open>local\<close>, \<^verbatim>\<open>config\<close>; it never raises a
  \<^verbatim>\<open>PyMongoError\<close> to its caller; and when the driver's listing fails with a
  \<^verbatim>\<open>PyMongoError\<close> at every try (with no connection manager, or with one that
  allows at least one try) the result is the empty list.
\<close>

theorem list_databases_filters_and_absorbs:
  "(list_databases cm f s = (Inr (Some names), s', tr) \<longrightarrow> set names \<inter> set system_dbs = {})
   \<and> (list_databases cm2 f2 s2 = (Inl e, s2', tr2) \<longrightarrow> \<not> is_PyMongoError e)
   \<and> ((\<forall>x. \<exists>e x'. f3 x = (Inl e, x') \<and> is_PyMongoError e)
        \<and> (cm3 = None \<or> (\<exists>mr. cm3 = Some mr \<and> 0 < mr))
      \<longrightarrow> fst (list_databases cm3 f3 s3) = Inr (Some []))"
proof (intro conjI impI)
  assume a: "list_databases cm f s = (Inr (Some names), s', tr)"
  show "set names \<inter> set system_dbs = {}"
  proof (cases cm)
    case None
    with a show ?thesis
      by (auto simp: list_databases_def Let_def split: prod.splits sum.splits if_splits
               dest!: list_op_returns_filtered)
  next
    case (Some mr)
    obtain r s1 tr1 where run:
      "execute_with_retry mr ''source'' (list_databases_operation f) s = (r, s1, tr1)"
      by (cases "execute_with_retry mr ''source'' (list_databases_operation f) s") auto
    show ?thesis
    proof (cases r)
      case (Inl e)
      with a Some run have "names = []"
        by (auto simp: list_databases_def split: if_splits)
      then show ?thesis by simp
    next
      case (Inr v)
      with a Some run have "r = Inr (Some names)" by (simp add: list_databases_def)
      with run obtain s0 where "list_databases_operation f s0 = (Inr names, s1)"
        unfolding execute_with_retry_def using loop_returns_from_operation by fastforce
      then show ?thesis by (rule list_op_returns_filtered)
    qed
  qed
next
  assume "list_databases cm2 f2 s2 = (Inl e, s2', tr2)"
  then show "\<not> is_PyMongoError e"
    by (auto simp: list_databases_def Let_def split: option.splits prod.splits sum.splits if_splits)
next
  assume a: "(\<forall>x. \<exists>e x'. f3 x = (Inl e, x') \<and> is_PyMongoError e)
        \<and> (cm3 = None \<or> (\<exists>mr. cm3 = Some mr \<and> 0 < mr))"
  then have fail: "\<And>x. \<exists>e x'. list_databases_operation f3 x = (Inl e, x') \<and> is_PyMongoError e"
    using list_op_fails by metis
  show "fst (list_databases cm3 f3 s3) = Inr (Some [])"
  proof (cases cm3)
    case None
    from fail [of s3] obtain e x' where
      "list_databases_operation f3 s3 = (Inl e, x')" "is_PyMongoError e" by blast
    with None show ?thesis by (simp add: list_databases_def)
  next
    case (Some mr)
    with a have pos: "0 < nat mr" by auto
    from loop_all_fail [of "list_databases_operation f3" 0 "nat mr" mr "''source''" s3 "[]", OF fail pos]
    obtain e x' tr' where
      "execute_with_retry mr ''source'' (list_databases_operation f3) s3 = (Inl e, x', tr')"
      "is_PyMongoError e"
      unfolding execute_with_retry_def by auto
    with Some show ?thesis by (simp add: list_databases_def)
  qed
qed

text \<open>
  Concrete runs: a listing with two system databases, a failure that is not a
  driver error, and an endpoint that times out at every try.
\<close>

theorem list_databases_filters_and_absorbs_witness:
  "set [''shop''] \<inter> set system_dbs = {}
   \<and> list_databases (Some 3) scripted [Inr [''admin'', ''shop'', ''local'']]
      = (Inr (Some [''shop'']), [], [Call])
   \<and> list_databases None scripted ([] :: (exn + string list) list)
      = (Inl (Exn OtherException ''script exhausted''), [], [Call])
   \<and> \<not> is_PyMongoError (Exn OtherException ''script exhausted'')
   \<and> is_PyMongoError (Exn ServerSelectionTimeoutError ''timed out'')
   \<and> fst (list_databases (Some 3)
            (\<lambda>x::unit. (Inl (Exn ServerSelectionTimeoutError ''timed out''), x)) ())
      = Inr (Some [])"
  using list_databases_filters_and_absorbs
    [of "Some 3" scripted "[Inr [''admin'', ''shop'', ''local'']]" "[''shop'']" "[]" "[Call]"
        None scripted "[] :: (exn + string list) list" "Exn OtherException ''script exhausted''"
        "[]" "[Call]"
        "\<lambda>x::unit. (Inl (Exn ServerSelectionTimeoutError ''timed out''), x)" "Some 3" "()"]
  by (simp add: list_databases_def list_databases_operation_def execute_with_retry_def
        system_dbs_def upt_conv_Cons)


section \<open>Properties of connecting\<close>
























section \<open>Properties of streaming and of the write path\<close>




lemma process_batch_operation_no_pymongo:
  "process_batch_operation bw b d = (Inl e, d') \<Longrightarrow> \<not> is_PyMongoError e"
  by (auto simp: process_batch_operation_def Let_def
           split: if_splits prod.splits bulk_outcome.splits)

lemma execute_first_try_non_pymongo:
  assumes "0 < mr" "\<And>e s'. operation s = (Inl e, s') \<Longrightarrow> \<not> is_PyMongoError e"
  shows "execute_with_retry mr ct operation s =
           (case operation s of
              (Inr v, s') \<Rightarrow> (Inr (Some v), s', [Call])
            | (Inl e, s') \<Rightarrow> (Inl e, s', [Call]))"
proof -
  have "[0..<nat mr] = 0 # [1..<nat mr]" using assms(1) by (simp add: upt_conv_Cons)
  then show ?thesis
    using assms(2) by (auto simp: execute_with_retry_def split: prod.splits sum.splits)
qed

lemma process_batch_eq:
  assumes "can_try cm"
  shows "process_batch cm bw b d =
           (case process_batch_operation bw b d of
              (Inr v, d') \<Rightarrow> (Some v, d')
            | (Inl e, d') \<Rightarrow>
                (Some \<lparr> inserted = 0, failed = int (length b), upserted = 0, modified = 0,
                        raw_inserted = None \<rparr>, d'))"
proof (cases cm)
  case None
  then show ?thesis
    by (auto simp: process_batch_def split: prod.splits sum.splits)
next
  case (Some mr)
  with assms have pos: "0 < mr" by (simp add: can_try_def)
  have "execute_with_retry mr ''destination'' (process_batch_operation bw b) d =
           (case process_batch_operation bw b d of
              (Inr v, s') \<Rightarrow> (Inr (Some v), s', [Call])
            | (Inl e, s') \<Rightarrow> (Inl e, s', [Call]))"
    by (rule execute_first_try_non_pymongo [OF pos process_batch_operation_no_pymongo])
  with Some show ?thesis
    by (auto simp: process_batch_def split: prod.splits sum.splits)
qed

lemma process_batch_some:
  "can_try cm \<Longrightarrow> \<exists>bs d'. process_batch cm bw b d = (Some bs, d')"
  by (auto simp: process_batch_eq split: prod.splits sum.splits)

lemma flush_ok:
  assumes "can_try cm"
  shows "\<exists>bs d'. process_batch cm bw (batch st) (dest st) = (Some bs, d')
           \<and> flush cm bw st =
             (None, st\<lparr>stats := add_batch_stats (stats st) bs, dest := d',
                      written := written st @ [batch st],
                      progress := progress st @ [length (batch st)]\<rparr>)"
proof -
  from process_batch_some [OF assms, of bw "batch st" "dest st"] obtain bs d' where
    "process_batch cm bw (batch st) (dest st) = (Some bs, d')" by blast
  then show ?thesis by (simp add: flush_def)
qed






lemma flush_keeps_success:
  "flush cm bw st = (r, st') \<Longrightarrow> success (stats st') = success (stats st)"
  by (auto simp: flush_def add_batch_stats_def split: prod.splits option.splits)

lemma stream_keeps_success:
  "stream cm bw bsz cur st = (r, st') \<Longrightarrow> success (stats st') = success (stats st)"
proof (induction cur arbitrary: st)
  case Nil
  then show ?case by simp
next
  case (Cons item cur)
  show ?case
  proof (cases item)
    case (CursorRaise e)
    with Cons.prems show ?thesis by simp
  next
    case (Doc d)
    let ?st1 = "st\<lparr>batch := batch st @ [d]\<rparr>"
    show ?thesis
    proof (cases "bsz \<le> int (length (batch ?st1))")
      case False
      with Doc Cons.prems have "stream cm bw bsz cur ?st1 = (r, st')" by (simp add: Let_def)
      from Cons.IH [OF this] show ?thesis by simp
    next
      case True
      obtain r2 st2 where fl: "flush cm bw ?st1 = (r2, st2)" by (cases "flush cm bw ?st1") auto
      have s2: "success (stats st2) = success (stats st)"
        using flush_keeps_success [OF fl] by simp
      show ?thesis
      proof (cases r2)
        case (Some e)
        with True Doc Cons.prems fl have "st' = st2" by (simp add: Let_def)
        with s2 show ?thesis by simp
      next
        case None
        with True Doc Cons.prems fl
        have "stream cm bw bsz cur (st2\<lparr>batch := []\<rparr>) = (r, st')" by (simp add: Let_def)
        from Cons.IH [OF this] s2 show ?thesis by simp
      qed
    qed
  qed
qed

lemma stream_all_keeps_success:
  assumes "stream_all cm bw bsz cur st = (r, st')"
  shows "success (stats st') = success (stats st)"
proof -
  obtain r1 st1 where s: "stream cm bw bsz cur st = (r1, st1)"
    by (cases "stream cm bw bsz cur st") auto
  have k: "success (stats st1) = success (stats st)" by (rule stream_keeps_success [OF s])
  show ?thesis
  proof (cases "r1 = None \<and> batch st1 \<noteq> []")
    case True
    with assms s have "flush cm bw st1 = (r, st')" by (simp add: stream_all_def)
    from flush_keeps_success [OF this] k show ?thesis by simp
  next
    case False
    with assms s have "st' = st1" by (auto simp: stream_all_def split: option.splits)
    with k show ?thesis by simp
  qed
qed

lemma stream_no_raise:
  assumes "can_try cm"
  shows "\<exists>st'. stream cm bw bsz (map Doc docs) st = (None, st')"
proof (induction docs arbitrary: st)
  case Nil
  then show ?case by simp
next
  case (Cons d docs)
  let ?st1 = "st\<lparr>batch := batch st @ [d]\<rparr>"
  from flush_ok [OF assms, of bw ?st1] obtain st2 where fl: "flush cm bw ?st1 = (None, st2)"
    by blast
  show ?case
  proof (cases "bsz \<le> int (length (batch ?st1))")
    case True
    from Cons.IH [of "st2\<lparr>batch := []\<rparr>"] True fl show ?thesis by (simp add: Let_def)
  next
    case False
    from Cons.IH [of ?st1] False show ?thesis by (simp add: Let_def)
  qed
qed

lemma stream_all_no_raise:
  assumes "can_try cm"
  shows "\<exists>st'. stream_all cm bw bsz (map Doc docs) st = (None, st')"
proof -
  from stream_no_raise [OF assms, of bw bsz docs st] obtain st1 where
    s: "stream cm bw bsz (map Doc docs) st = (None, st1)" by blast
  from flush_ok [OF assms, of bw st1] obtain st2 where "flush cm bw st1 = (None, st2)" by blast
  with s show ?thesis by (simp add: stream_all_def)
qed

text \<open>
  C9. A report that carries the statistics of a run always has \<^verbatim>\<open>success\<close>
  true: nothing in the streaming loop writes that field, whatever the batches
  report as failed. And for a transfer whose cursor yields its records without
  raising and whose write path runs, \<^verbatim>\<open>success\<close> is false exactly when a step
  before streaming failed: the destination collection could not be ensured, or
  counting the source or the destination raised.
\<close>

theorem finished_transfer_reports_success:
  "(fst (migrate_collection is_vcore cm bsz bw cn env d0) = Finished s \<longrightarrow> success s)
   \<and> (can_try cm2 \<and> cursor env2 = map Doc docs
      \<longrightarrow> report_success (fst (migrate_collection is_vcore2 cm2 bsz2 bw2 cn2 env2 d2))
          = (ensure_destination is_vcore2 cn2 env2 = Inr True
             \<and> (\<exists>n. source_count env2 = Inr n
                    \<and> (n = Some 0 \<or> (\<exists>m. dest_count env2 = Inr m)))))"
proof (intro conjI impI)
  assume a: "fst (migrate_collection is_vcore cm bsz bw cn env d0) = Finished s"
  then obtain n st where
    run: "stream_all cm bw bsz (cursor env) (initial_state n d0) = (None, st)" and
    s: "s = stats st"
    by (auto simp: migrate_collection_def split: sum.splits bool.splits if_splits
          prod.splits option.splits)
  from stream_all_keeps_success [OF run] s show "success s" by (simp add: initial_state_def)
next
  assume a: "can_try cm2 \<and> cursor env2 = map Doc docs"
  have ok: "\<exists>st'. stream_all cm2 bw2 bsz2 (cursor env2) (initial_state n d2) = (None, st')
              \<and> success (stats st')" for n
  proof -
    from stream_all_no_raise [of cm2 bw2 bsz2 docs "initial_state n d2"] a obtain st' where
      r: "stream_all cm2 bw2 bsz2 (cursor env2) (initial_state n d2) = (None, st')" by auto
    from stream_all_keeps_success [OF r] have "success (stats st')"
      by (simp add: initial_state_def)
    with r show ?thesis by blast
  qed
  show "report_success (fst (migrate_collection is_vcore2 cm2 bsz2 bw2 cn2 env2 d2))
          = (ensure_destination is_vcore2 cn2 env2 = Inr True
             \<and> (\<exists>n. source_count env2 = Inr n
                    \<and> (n = Some 0 \<or> (\<exists>m. dest_count env2 = Inr m))))"
  proof (cases "ensure_destination is_vcore2 cn2 env2")
    case (Inl e)
    then show ?thesis by (simp add: migrate_collection_def)
  next
    case (Inr b)
    show ?thesis
    proof (cases b)
      case False
      with Inr show ?thesis by (simp add: migrate_collection_def)
    next
      case True
      show ?thesis
      proof (cases "source_count env2")
        case (Inl e)
        with Inr True show ?thesis by (simp add: migrate_collection_def)
      next
        case cnt: (Inr n)
        show ?thesis
        proof (cases "n = Some 0")
          case True
          with Inr \<open>b\<close> cnt show ?thesis by (simp add: migrate_collection_def)
        next
          case False
          show ?thesis
          proof (cases "dest_count env2")
            case (Inl e)
            with Inr \<open>b\<close> cnt False show ?thesis by (simp add: migrate_collection_def)
          next
            case dc: (Inr m)
            from ok [of n] obtain st' where
              "stream_all cm2 bw2 bsz2 (cursor env2) (initial_state n d2) = (None, st')"
              "success (stats st')" by blast
            with Inr \<open>b\<close> cnt False dc show ?thesis by (simp add: migrate_collection_def)
          qed
        qed
      qed
    qed
  qed
qed

text \<open>
  C4, at an input the driver produces. A bulk write of ten requests fails for
  three of them and succeeds for seven; the driver reports the seven under the
  top-level key \<^verbatim>\<open>nUpserted\<close>. Lines 362-368 look for the counters under a key
  \<^verbatim>\<open>writeResult\<close>, find none, and the batch reports three failed and nothing
  migrated: the surviving successful counts are not kept.
\<close>

theorem partial_failure_counts_lost:
  "process_batch (Some 3) (\<lambda>d ops. (BulkWriteError driver_partial_failure, d)) ten_docs ()
     = (Some \<lparr> inserted = 0, failed = 3, upserted = 0, modified = 0, raw_inserted = Some 0 \<rparr>, ())
   \<and> length ten_docs = 10
   \<and> get0 (top_level driver_partial_failure) ''nUpserted'' = 7"
  by (simp add: process_batch_def process_batch_operation_def execute_with_retry_def
        upt_conv_Cons ten_docs_def driver_partial_failure_def get0_def Let_def)

text \<open>
  C1, at a destination that already holds a record. A batch of one record without
  \<^verbatim>\<open>_id\<close> becomes \<^verbatim>\<open>ReplaceOne({}, record, upsert=True)\<close> (line 342); the
  empty filter selects the stored record, which is replaced: the destination
  still holds one record, the old content is gone, and the batch counts one
  modified record and no insertion.
\<close>

theorem record_without_id_replaces_existing:
  "process_batch None mongo_bulk_write [[(''name'', VStr ''new'')]] one_record
     = (Some \<lparr> inserted = 1, failed = 0, upserted = 0, modified = 1, raw_inserted = Some 0 \<rparr>,
        \<lparr> stored = [[(''_id'', VInt 1), (''name'', VStr ''new'')]], next_oid = 0 \<rparr>)"
  by (simp add: process_batch_def process_batch_operation_def operations_of_def
        mongo_bulk_write_def one_record_def matches_def Let_def)

text \<open>
  Three records, batches of two, a destination that refuses every bulk write: all
  three records are counted as failed and the report says success.
\<close>

theorem finished_transfer_reports_success_witness:
  "fst (migrate_collection True None 2 failing_bulk_write ''orders'' sample_env ())
     = Finished \<lparr> success = True, total_documents = Some 3, migrated_documents = 0,
                  failed_documents = 3, inserted_documents = 0, upserted_documents = 0,
                  modified_documents = 0 \<rparr>
   \<and> can_try None
   \<and> cursor sample_env = map Doc [[(''_id'', VInt 1)], [(''_id'', VInt 2)], [(''_id'', VInt 3)]]
   \<and> report_success (fst (migrate_collection True None 2 failing_bulk_write ''orders''
         sample_env ()))"
  using finished_transfer_reports_success
    [of True None 2 failing_bulk_write "''orders''" sample_env "()"
        "\<lparr> success = True, total_documents = Some 3, migrated_documents = 0,
           failed_documents = 3, inserted_documents = 0, upserted_documents = 0,
           modified_documents = 0 \<rparr>"
        None sample_env "[[(''_id'', VInt 1)], [(''_id'', VInt 2)], [(''_id'', VInt 3)]]"
        True 2 failing_bulk_write "''orders''" "()"]
  by (simp add: migrate_collection_def ensure_destination_def sample_env_def stream_all_def
        flush_def process_batch_def process_batch_operation_def failing_bulk_write_def
        operations_of_def initial_state_def add_batch_stats_def stats0_def can_try_def Let_def)

lemma bulk_write_error_stats:
  assumes "can_try cm" "b \<noteq> []" "bw d (operations_of b) = (BulkWriteError details, d')"
  shows "process_batch cm bw b d =
     (Some \<lparr> inserted = get0 (case writeResult details of Some r \<Rightarrow> r | None \<Rightarrow> []) ''nInserted''
                        + get0 (case writeResult details of Some r \<Rightarrow> r | None \<Rightarrow> []) ''nUpserted''
                        + get0 (case writeResult details of Some r \<Rightarrow> r | None \<Rightarrow> []) ''nModified'',
             failed = int (length (case writeErrors details of Some l \<Rightarrow> l | None \<Rightarrow> [])),
             upserted = get0 (case writeResult details of Some r \<Rightarrow> r | None \<Rightarrow> []) ''nUpserted'',
             modified = get0 (case writeResult details of Some r \<Rightarrow> r | None \<Rightarrow> []) ''nModified'',
             raw_inserted =
               Some (get0 (case writeResult details of Some r \<Rightarrow> r | None \<Rightarrow> []) ''nInserted'') \<rparr>,
      d')"
  using assms by (simp add: process_batch_eq [OF assms(1)] process_batch_operation_def Let_def)

section \<open>Properties of ensuring the destination collection\<close>

lemma lower_manual: "lower ''manual'' = ''manual''"
  by (simp add: lower_def)

lemma ensure_listed_unchanged:
  "list_collection_names srv db = Inr names \<Longrightarrow> cn \<in> set names
   \<Longrightarrow> ensure_collection_exists cfg srv db cn pk = (True, db)"
  by (simp add: ensure_collection_exists_def)

lemma ensure_ru_namespace_exists:
  assumes "\<not> target_is_vcore cfg" "list_collection_names srv db = Inr names" "cn \<notin> set names"
    and "\<And>cmd. run_command srv db cmd = Inl e" "is_OperationFailure e"
    and "contains (message e) ''NamespaceExists''"
  shows "ensure_collection_exists cfg srv db cn pk = (True, db)"
  using assms by (simp add: ensure_collection_exists_def create_collection_with_throughput_def Let_def)

lemma ensure_twice:
  assumes "ensure_collection_exists cfg srv db cn pk = (True, db')"
    and "db' \<noteq> db \<Longrightarrow> \<exists>names. list_collection_names srv db' = Inr names \<and> cn \<in> set names"
  shows "ensure_collection_exists cfg srv db' cn pk = (True, db')"
proof (cases "db' = db")
  case True
  with assms(1) show ?thesis by simp
next
  case False
  from assms(2) [OF False] obtain names where
    "list_collection_names srv db' = Inr names" "cn \<in> set names" by blast
  then show ?thesis by (rule ensure_listed_unchanged)
qed

text \<open>
  C6, at a creation that loses a race. The configuration says the destination is
  a fixed (vCore) one; the listing does not show the collection yet, another
  client has just created it, and \<^verbatim>\<open>create_collection\<close> fails with "already
  exists". Lines 228-232 and 244-246 report \<^verbatim>\<open>False\<close>, although the
  collection exists. On the provisioned path the same situation is reported as
  success (lines 118-121).
\<close>

theorem ensure_fixed_path_rejects_already_exists:
  "target_is_vcore default_config
   \<and> create_collection racing_server ([], [''orders'']) ''orders''
       = Inl (Exn CollectionInvalid ''collection orders already exists'')
   \<and> ensure_collection_exists default_config racing_server ([], [''orders'']) ''orders'' None
       = (False, ([], [''orders'']))
   \<and> ensure_collection_exists (default_config\<lparr>target_is_vcore := False\<rparr>) racing_server
         ([], [''orders'']) ''orders'' None
       = (True, ([], [''orders'']))"
  by (simp add: ensure_collection_exists_def create_collection_with_throughput_def
        racing_server_def default_config_def truthy_def lower_def Let_def)

section \<open>Properties of the partition-key recommendation\<close>
































end
